theory Spec2Isabelle
  imports Main "HOL-Library.Finite_Map" "HOL-Library.Sublist"
begin

section \<open>Values and errors\<close>

text \<open>
  A value of Go's \<^verbatim>\<open>interface{}\<close>, as the configuration store hands it out: the
  dynamic type is the constructor. \<open>GMapI\<close> is \<^verbatim>\<open>map[interface{}]interface{}\<close>
  (entries in some order), \<open>GMapS\<close> is \<^verbatim>\<open>map[string]interface{}\<close>,
  \<open>GBindMode\<close> is a \<^verbatim>\<open>BindMode\<close>, and \<open>GOther t\<close> is a value of any other
  type, of which only the type's name \<open>t\<close> is kept. A nil map and an empty map
  are the same \<open>fmempty\<close>: they read the same in Go.
\<close>

datatype gval =
    GNil
  | GBool bool
  | GInt int
  | GString string
  | GBindMode string
  | GList "gval list"
  | GMapI "(gval \<times> gval) list"
  | GMapS "(string, gval) fmap"
  | GOther string

text \<open>What the verb \<^verbatim>\<open>%T\<close> of package fmt prints for a value: the name of its dynamic type.\<close>

fun type_name :: "gval \<Rightarrow> string" where
  "type_name GNil = ''<nil>''"
| "type_name (GBool b) = ''bool''"
| "type_name (GInt i) = ''int''"
| "type_name (GString s) = ''string''"
| "type_name (GBindMode s) = ''volume.BindMode''"
| "type_name (GList xs) = ''[]interface {}''"
| "type_name (GMapI kvs) = ''map[interface {}]interface {}''"
| "type_name (GMapS m) = ''map[string]interface {}''"
| "type_name (GOther t) = t"

text \<open>
  Errors. \<open>ErrorsNew msg\<close> is \<^verbatim>\<open>errors.New(msg)\<close>, and also
  \<^verbatim>\<open>errors.Errorf\<close> with its message already formatted; \<open>WithStack e\<close> is
  \<^verbatim>\<open>errors.WithStack(e)\<close> for a non-nil \<open>e\<close>; \<open>MgoErrNotFound\<close> is
  \<^verbatim>\<open>mgo.ErrNotFound\<close>; \<open>MgoDup\<close> is the duplicate-key error of the store, the
  one \<^verbatim>\<open>mgo.IsDup\<close> recognises; \<open>Failure msg\<close> is any other error of a
  collaborator. A nil error is \<open>None\<close>.
\<close>

datatype error =
    ErrorsNew string
  | WithStack error
  | MgoErrNotFound
  | MgoDup
  | Failure string

definition ErrVolumeNotFound :: error where
  "ErrVolumeNotFound = ErrorsNew ''volume not found''"

definition ErrVolumeAlreadyBound :: error where
  "ErrVolumeAlreadyBound = ErrorsNew ''volume already bound in mountpoint''"

definition ErrVolumeBindNotFound :: error where
  "ErrVolumeBindNotFound = ErrorsNew ''volume bind not found''"

text \<open>\<^verbatim>\<open>errors.WithStack(err)\<close> on an error that may be nil: nil stays nil.\<close>

fun WithStack_nil :: "error option \<Rightarrow> error option" where
  "WithStack_nil None = None"
| "WithStack_nil (Some e) = Some (WithStack e)"

fun IsDup :: "error \<Rightarrow> bool" where
  "IsDup MgoDup = True"
| "IsDup _ = False"

section \<open>Data model\<close>

type_synonym BindMode = string

definition BindModeReadOnly :: BindMode where
  "BindModeReadOnly = ''ro''"

definition BindModeReadWrite :: BindMode where
  "BindModeReadWrite = ''rw''"

record VolumePlan =
  Name :: string
  Opts :: "(string, gval) fmap"

record VolumeBindID =
  App :: string
  MountPoint :: string
  Volume :: string

record VolumeBind =
  ID :: VolumeBindID
  Mode :: BindMode

text \<open>
  \<open>Opts\<close> of a volume is \<open>None\<close> for a nil map: the field is tagged
  \<^verbatim>\<open>omitempty\<close>, and the difference between nil and empty shows after a load.
\<close>

record Volume =
  Name :: string
  Pool :: string
  Plan :: VolumePlan
  TeamOwner :: string
  Status :: string
  Opts :: "(string, string) fmap option"

definition volumePlanKey :: "string \<Rightarrow> string \<Rightarrow> string" where
  "volumePlanKey planName provisioner = ''volume-plans:'' @ planName @ '':'' @ provisioner"

section \<open>Collaborators\<close>

text \<open>
  The registries and the configuration store that \<open>Validate\<close> consults are not part
  of this package: they are the fields of an environment. \<open>GetPoolByName\<close> is
  \<^verbatim>\<open>provision.GetPoolByName\<close>, \<open>GetTeam\<close> is \<^verbatim>\<open>auth.GetTeam\<close>,
  \<open>GetProvisioner\<close> and \<open>GetName\<close> are the methods of the pool and of its provisioner,
  \<open>config_Get\<close> is \<^verbatim>\<open>config.Get\<close> and \<open>ConvertEntries\<close> is
  \<^verbatim>\<open>internalConfig.ConvertEntries\<close>.
\<close>

record ('pool, 'prov, 'team) env =
  GetPoolByName :: "string \<Rightarrow> error + 'pool"
  GetTeam :: "string \<Rightarrow> error + 'team"
  GetProvisioner :: "'pool \<Rightarrow> error + 'prov"
  GetName :: "'prov \<Rightarrow> string"
  config_Get :: "string \<Rightarrow> error + gval"
  ConvertEntries :: "gval \<Rightarrow> gval"

text \<open>The lookups a call has made, in the order it made them.\<close>

datatype lookup =
    LookupPool string
  | LookupTeam string
  | LookupProvisioner
  | LookupConfig string

text \<open>
  The type assertion \<^verbatim>\<open>x.(map[string]interface{})\<close> in its two-valued form: the
  map and true when \<open>x\<close> holds one, the zero value of the map type and false
  otherwise.
\<close>

fun assert_map_string :: "gval \<Rightarrow> (string, gval) fmap \<times> bool" where
  "assert_map_string (GMapS m) = (m, True)"
| "assert_map_string _ = (fmempty, False)"

section \<open>The store\<close>

text \<open>
  Modelled from the spec: the durable store behind \<^verbatim>\<open>db.Conn()\<close>, which is
  packages \<^verbatim>\<open>db\<close> and \<^verbatim>\<open>mgo\<close> and not part of this package. A collection
  is the list of its documents. A stored volume has the shape the struct tags give
  it: the name is the id, and \<open>d_opts\<close> is \<open>None\<close> when the field is absent,
  which is how \<^verbatim>\<open>omitempty\<close> stores a map of length 0; a load into a fresh
  \<open>Volume\<close> leaves an absent field nil.
\<close>

record VolumeDoc =
  d_id :: string
  d_pool :: string
  d_plan :: VolumePlan
  d_teamowner :: string
  d_status :: string
  d_opts :: "(string, string) fmap option"

definition marshal :: "Volume \<Rightarrow> VolumeDoc" where
  "marshal v =
     \<lparr>d_id = Volume.Name v, d_pool = Pool v, d_plan = Plan v, d_teamowner = TeamOwner v,
      d_status = Status v,
      d_opts = (case Volume.Opts v of None \<Rightarrow> None
                | Some m \<Rightarrow> if m = fmempty then None else Some m)\<rparr>"

definition unmarshal :: "VolumeDoc \<Rightarrow> Volume" where
  "unmarshal d =
     \<lparr>Volume.Name = d_id d, Pool = d_pool d, Plan = d_plan d, TeamOwner = d_teamowner d,
      Status = d_status d, Volume.Opts = d_opts d\<rparr>"

record db =
  Volumes :: "VolumeDoc list"
  VolumeBinds :: "VolumeBind list"

text \<open>
  What the infrastructure does during one call: \<open>Conn_err\<close> is the error of
  \<^verbatim>\<open>db.Conn()\<close>, \<open>Op_err\<close> a failure of the call's first storage operation for a
  reason of the backend's own, \<open>Op2_err\<close> the same for its second one. \<open>None\<close> is
  no failure. A failed operation changes nothing.
\<close>

record faults =
  Conn_err :: "error option"
  Op_err :: "error option"
  Op2_err :: "error option"

definition no_faults :: faults where
  "no_faults = \<lparr>Conn_err = None, Op_err = None, Op2_err = None\<rparr>"

text \<open>
  Modelled from the spec: the operations of a collection, by the storage interface
  the spec lists. \<open>Insert\<close> rejects a document whose id is taken, with the
  duplicate-key error; \<open>UpsertId\<close> replaces the document of the id or adds one;
  \<open>RemoveId\<close> deletes the document of the id and reports \<open>MgoErrNotFound\<close> when
  there is none; \<open>FindId_One\<close> is \<^verbatim>\<open>FindId(id).One\<close>, \<open>Find_All\<close> is
  \<^verbatim>\<open>Find(filter).All\<close> and \<open>Find_Distinct\<close> is \<^verbatim>\<open>Find(filter).Distinct(field)\<close>.
  Each takes the failure, if any, that the backend injects into it.
\<close>

definition Insert :: "error option \<Rightarrow> ('d \<Rightarrow> 'k) \<Rightarrow> 'd \<Rightarrow> 'd list \<Rightarrow> 'd list \<times> error option" where
  "Insert fault key d c =
     (case fault of
        Some e \<Rightarrow> (c, Some e)
      | None \<Rightarrow> if key d \<in> set (map key c) then (c, Some MgoDup) else (c @ [d], None))"

definition UpsertId :: "error option \<Rightarrow> ('d \<Rightarrow> 'k) \<Rightarrow> 'k \<Rightarrow> 'd \<Rightarrow> 'd list \<Rightarrow> 'd list \<times> error option" where
  "UpsertId fault key i d c =
     (case fault of
        Some e \<Rightarrow> (c, Some e)
      | None \<Rightarrow> if i \<in> set (map key c)
                then (map (\<lambda>x. if key x = i then d else x) c, None)
                else (c @ [d], None))"

fun remove_first :: "('d \<Rightarrow> 'k) \<Rightarrow> 'k \<Rightarrow> 'd list \<Rightarrow> 'd list" where
  "remove_first key i [] = []"
| "remove_first key i (x # xs) = (if key x = i then xs else x # remove_first key i xs)"

definition RemoveId :: "error option \<Rightarrow> ('d \<Rightarrow> 'k) \<Rightarrow> 'k \<Rightarrow> 'd list \<Rightarrow> 'd list \<times> error option" where
  "RemoveId fault key i c =
     (case fault of
        Some e \<Rightarrow> (c, Some e)
      | None \<Rightarrow> if i \<in> set (map key c) then (remove_first key i c, None)
                else (c, Some MgoErrNotFound))"

definition FindId_One :: "error option \<Rightarrow> ('d \<Rightarrow> 'k) \<Rightarrow> 'k \<Rightarrow> 'd list \<Rightarrow> error + 'd" where
  "FindId_One fault key i c =
     (case fault of
        Some e \<Rightarrow> Inl e
      | None \<Rightarrow> (case find (\<lambda>x. key x = i) c of None \<Rightarrow> Inl MgoErrNotFound | Some d \<Rightarrow> Inr d))"

definition Find_All :: "error option \<Rightarrow> ('d \<Rightarrow> bool) \<Rightarrow> 'd list \<Rightarrow> error + 'd list" where
  "Find_All fault sel c = (case fault of Some e \<Rightarrow> Inl e | None \<Rightarrow> Inr (filter sel c))"

definition Find_Distinct :: "error option \<Rightarrow> ('d \<Rightarrow> bool) \<Rightarrow> ('d \<Rightarrow> 'f) \<Rightarrow> 'd list \<Rightarrow> error + 'f list" where
  "Find_Distinct fault sel field c =
     (case fault of Some e \<Rightarrow> Inl e | None \<Rightarrow> Inr (remdups (map field (filter sel c))))"

text \<open>The store keeps ids unique within a collection.\<close>

definition wf_db :: "db \<Rightarrow> bool" where
  "wf_db s \<longleftrightarrow> distinct (map d_id (Volumes s)) \<and> distinct (map ID (VolumeBinds s))"

section \<open>The operations of the package\<close>

text \<open>
  \<open>Validate\<close> returns the lookups it made, the receiver as the call leaves it, and
  the error.
\<close>

definition Validate :: "('pool, 'prov, 'team) env \<Rightarrow> Volume \<Rightarrow> lookup list \<times> Volume \<times> error option" where
  "Validate env v =
     (if Volume.Name v = '''' then ([], v, Some (ErrorsNew ''volume name cannot be empty''))
      else case GetPoolByName env (Pool v) of
        Inl err \<Rightarrow> ([LookupPool (Pool v)], v, Some (WithStack err))
      | Inr pool \<Rightarrow>
      (case GetTeam env (TeamOwner v) of
        Inl err \<Rightarrow> ([LookupPool (Pool v), LookupTeam (TeamOwner v)], v, Some (WithStack err))
      | Inr team \<Rightarrow>
      (case GetProvisioner env pool of
        Inl err \<Rightarrow>
          ([LookupPool (Pool v), LookupTeam (TeamOwner v), LookupProvisioner], v,
           Some (WithStack err))
      | Inr prov \<Rightarrow>
      (let key = volumePlanKey (VolumePlan.Name (Plan v)) (GetName env prov);
           log = [LookupPool (Pool v), LookupTeam (TeamOwner v), LookupProvisioner,
                  LookupConfig key]
       in case config_Get env key of
        Inl err \<Rightarrow> (log, v, Some (WithStack err))
      | Inr data \<Rightarrow>
      (case assert_map_string (ConvertEntries env data) of
        (planOpts, ok) \<Rightarrow>
          if \<not> ok
          then (log, v,
                Some (ErrorsNew (''invalid type for plan opts '' @ type_name (GMapS planOpts))))
          else (log, v\<lparr>Plan := (Plan v)\<lparr>VolumePlan.Opts := planOpts\<rparr>\<rparr>, None))))))"

definition Save :: "('pool, 'prov, 'team) env \<Rightarrow> faults \<Rightarrow> Volume \<Rightarrow> db \<Rightarrow> lookup list \<times> Volume \<times> db \<times> error option" where
  "Save env io v s =
     (case Validate env v of
        (log, v', Some err) \<Rightarrow> (log, v', s, Some err)
      | (log, v', None) \<Rightarrow>
        (case Conn_err io of
           Some err \<Rightarrow> (log, v', s, Some (WithStack err))
         | None \<Rightarrow>
           (case UpsertId (Op_err io) d_id (Volume.Name v') (marshal v') (Volumes s) of
              (docs, err) \<Rightarrow> (log, v', s\<lparr>Volumes := docs\<rparr>, WithStack_nil err))))"

text \<open>
  \<open>Quote\<close> is what the verb \<^verbatim>\<open>%q\<close> of package fmt prints for a string: the
  string as a quoted Go literal. It belongs to Go's library and is an argument
  here.
\<close>

definition BindApp :: "(string \<Rightarrow> string) \<Rightarrow> faults \<Rightarrow> Volume \<Rightarrow> string \<Rightarrow> string \<Rightarrow> BindMode \<Rightarrow> db \<Rightarrow> db \<times> error option" where
  "BindApp Quote io v appName mountPoint mode0 s =
     (let mode = (if mode0 = '''' then BindModeReadWrite else mode0) in
      if mode \<noteq> BindModeReadOnly \<and> mode \<noteq> BindModeReadWrite
      then (s, Some (ErrorsNew (''invalid bind mode, expected '' @ Quote BindModeReadOnly
                      @ '' or '' @ Quote BindModeReadWrite @ '', got '' @ Quote mode)))
      else case Conn_err io of
        Some err \<Rightarrow> (s, Some (WithStack err))
      | None \<Rightarrow>
        (let bind = \<lparr>ID = \<lparr>App = appName, MountPoint = mountPoint, Volume = Volume.Name v\<rparr>,
                     Mode = mode\<rparr>
         in case Insert (Op_err io) ID bind (VolumeBinds s) of
           (binds, err) \<Rightarrow>
             if err \<noteq> None \<and> IsDup (the err)
             then (s\<lparr>VolumeBinds := binds\<rparr>, Some ErrVolumeAlreadyBound)
             else (s\<lparr>VolumeBinds := binds\<rparr>, WithStack_nil err)))"

definition UnbindApp :: "faults \<Rightarrow> Volume \<Rightarrow> string \<Rightarrow> string \<Rightarrow> db \<Rightarrow> db \<times> error option" where
  "UnbindApp io v appName mountPoint s =
     (case Conn_err io of
        Some err \<Rightarrow> (s, Some (WithStack err))
      | None \<Rightarrow>
        (case RemoveId (Op_err io) ID
                \<lparr>App = appName, MountPoint = mountPoint, Volume = Volume.Name v\<rparr>
                (VolumeBinds s) of
           (binds, err) \<Rightarrow>
             if err = Some MgoErrNotFound
             then (s\<lparr>VolumeBinds := binds\<rparr>, Some ErrVolumeBindNotFound)
             else (s\<lparr>VolumeBinds := binds\<rparr>, WithStack_nil err)))"

definition Binds :: "faults \<Rightarrow> Volume \<Rightarrow> db \<Rightarrow> error + VolumeBind list" where
  "Binds io v s =
     (case Conn_err io of
        Some err \<Rightarrow> Inl (WithStack err)
      | None \<Rightarrow>
        (case Find_All (Op_err io) (\<lambda>b. Volume (ID b) = Volume.Name v) (VolumeBinds s) of
           Inl err \<Rightarrow> Inl err
         | Inr binds \<Rightarrow> Inr binds))"

definition ListByApp :: "faults \<Rightarrow> string \<Rightarrow> db \<Rightarrow> error + Volume list" where
  "ListByApp io appName s =
     (case Conn_err io of
        Some err \<Rightarrow> Inl (WithStack err)
      | None \<Rightarrow>
        (case Find_Distinct (Op_err io) (\<lambda>b. App (ID b) = appName) (\<lambda>b. Volume (ID b))
                (VolumeBinds s) of
           Inl err \<Rightarrow> Inl err
         | Inr volumeNames \<Rightarrow>
           (case Find_All (Op2_err io) (\<lambda>d. d_id d \<in> set volumeNames) (Volumes s) of
              Inl err \<Rightarrow> Inl (WithStack err)
            | Inr docs \<Rightarrow> Inr (map unmarshal docs))))"

definition Load :: "faults \<Rightarrow> string \<Rightarrow> db \<Rightarrow> error + Volume" where
  "Load io name s =
     (case Conn_err io of
        Some err \<Rightarrow> Inl (WithStack err)
      | None \<Rightarrow>
        (case FindId_One (Op_err io) d_id name (Volumes s) of
           Inl err \<Rightarrow> if err = MgoErrNotFound then Inl ErrVolumeNotFound else Inl (WithStack err)
         | Inr d \<Rightarrow> Inr (unmarshal d)))"

section \<open>Example data\<close>

text \<open>
  The data of the scenarios: pool \<open>p1\<close> with provisioner \<open>docker\<close>, team
  \<open>team1\<close>, a plan \<open>plan1\<close> configured with a mapping and a plan \<open>plan2\<close>
  configured with a boolean. \<open>example_ConvertEntries\<close> stands for
  \<^verbatim>\<open>ConvertEntries\<close> on these values: it turns the string-keyed
  \<^verbatim>\<open>map[interface{}]interface{}\<close> into a \<^verbatim>\<open>map[string]interface{}\<close> and returns
  any other value as it is. \<open>example_Quote\<close> stands for \<^verbatim>\<open>%q\<close> on strings that
  need no escape: the string between double quotes.
\<close>

fun example_key :: "gval \<Rightarrow> string" where
  "example_key (GString s) = s"
| "example_key _ = ''?''"

fun example_ConvertEntries :: "gval \<Rightarrow> gval" where
  "example_ConvertEntries (GMapI kvs) = GMapS (fmap_of_list (map (\<lambda>(k, x). (example_key k, x)) kvs))"
| "example_ConvertEntries x = x"

definition example_env :: "(string, string, unit) env" where
  "example_env =
     \<lparr>GetPoolByName = (\<lambda>n. if n = ''p1'' then Inr ''p1'' else Inl (Failure ''pool not found'')),
      GetTeam = (\<lambda>n. if n = ''team1'' then Inr () else Inl (Failure ''team not found'')),
      GetProvisioner = (\<lambda>p. Inr ''docker''),
      GetName = (\<lambda>p. p),
      config_Get = (\<lambda>k. if k = ''volume-plans:plan1:docker''
                          then Inr (GMapI [(GString ''size'', GString ''10Gi'')])
                          else if k = ''volume-plans:plan2:docker'' then Inr (GBool True)
                          else Inl (Failure ''key not found'')),
      ConvertEntries = example_ConvertEntries\<rparr>"

definition example_volume :: "string \<Rightarrow> string \<Rightarrow> Volume" where
  "example_volume name plan =
     \<lparr>Volume.Name = name, Pool = ''p1'',
      Plan = \<lparr>VolumePlan.Name = plan, VolumePlan.Opts = fmempty\<rparr>,
      TeamOwner = ''team1'', Status = '''', Volume.Opts = None\<rparr>"

definition example_Quote :: "string \<Rightarrow> string" where
  "example_Quote x = [CHR 0x22] @ x @ [CHR 0x22]"

definition empty_db :: db where
  "empty_db = \<lparr>Volumes = [], VolumeBinds = []\<rparr>"

definition example_bind :: "string \<Rightarrow> string \<Rightarrow> string \<Rightarrow> BindMode \<Rightarrow> VolumeBind" where
  "example_bind a m n mode = \<lparr>ID = \<lparr>App = a, MountPoint = m, Volume = n\<rparr>, Mode = mode\<rparr>"

definition example_doc :: "string \<Rightarrow> VolumeDoc" where
  "example_doc name =
     \<lparr>d_id = name, d_pool = ''p1'',
      d_plan = \<lparr>VolumePlan.Name = ''plan1'',
                VolumePlan.Opts = fmap_of_list [(''size'', GString ''10Gi'')]\<rparr>,
      d_teamowner = ''team1'', d_status = '''', d_opts = None\<rparr>"

definition example_db :: db where
  "example_db =
     \<lparr>Volumes = [example_doc ''v1'', example_doc ''v3''],
      VolumeBinds = [example_bind ''app1'' ''/data'' ''v1'' ''rw'',
                     example_bind ''app1'' ''/logs'' ''v1'' ''ro'',
                     example_bind ''app1'' ''/tmp'' ''v2'' ''rw'',
                     example_bind ''app2'' ''/data'' ''v3'' ''rw'']\<rparr>"

section \<open>Properties of validation\<close>

lemma Validate_cases:
  "Validate env v = (log, v', r) \<Longrightarrow>
     (r \<noteq> None \<and> v' = v) \<or>
     (\<exists>pool prov data planOpts.
        r = None \<and>
        GetPoolByName env (Pool v) = Inr pool \<and>
        GetProvisioner env pool = Inr prov \<and>
        config_Get env (volumePlanKey (VolumePlan.Name (Plan v)) (GetName env prov)) = Inr data \<and>
        ConvertEntries env data = GMapS planOpts \<and>
        v' = v\<lparr>Plan := (Plan v)\<lparr>VolumePlan.Opts := planOpts\<rparr>\<rparr>)"
  unfolding Validate_def Let_def
  by (auto split: if_splits sum.splits prod.splits elim: assert_map_string.elims)

text \<open>
  C10. When \<open>Validate\<close> returns an error, whichever check raised it, the receiver is
  as it was before the call: the assignment to the plan options is on the success
  path alone.
\<close>

theorem Validate_error_leaves_receiver:
  "Validate env v = (log, v', Some e) \<Longrightarrow> v' = v"
  using Validate_cases [of env v log v' "Some e"] by auto

theorem Validate_error_leaves_receiver_witness:
  "Validate example_env (example_volume ''v1'' ''plan3'')
     = ([LookupPool ''p1'', LookupTeam ''team1'', LookupProvisioner,
         LookupConfig ''volume-plans:plan3:docker''],
        example_volume ''v1'' ''plan3'', Some (WithStack (Failure ''key not found'')))"
proof -
  obtain log v' r where h: "Validate example_env (example_volume ''v1'' ''plan3'') = (log, v', r)"
    using prod_cases3 by blast
  have l: "log = [LookupPool ''p1'', LookupTeam ''team1'', LookupProvisioner,
         LookupConfig ''volume-plans:plan3:docker'']" and r: "r = Some (WithStack (Failure ''key not found''))"
    using h by (simp_all add: Validate_def example_env_def example_volume_def volumePlanKey_def Let_def)
  from h r Validate_error_leaves_receiver [of example_env "example_volume ''v1'' ''plan3''" log v']
  have "v' = example_volume ''v1'' ''plan3''" by simp
  with h l r show ?thesis by simp
qed

lemma Validate_succeeds:
  assumes "Volume.Name v \<noteq> ''''"
    and "GetPoolByName env (Pool v) = Inr pool"
    and "GetTeam env (TeamOwner v) = Inr team"
    and "GetProvisioner env pool = Inr prov"
    and "config_Get env (volumePlanKey (VolumePlan.Name (Plan v)) (GetName env prov)) = Inr data"
    and "ConvertEntries env data = GMapS planOpts"
  shows "Validate env v =
           ([LookupPool (Pool v), LookupTeam (TeamOwner v), LookupProvisioner,
             LookupConfig (volumePlanKey (VolumePlan.Name (Plan v)) (GetName env prov))],
            v\<lparr>Plan := (Plan v)\<lparr>VolumePlan.Opts := planOpts\<rparr>\<rparr>, None)"
  using assms by (simp add: Validate_def Let_def)

text \<open>
  C6. When \<open>Validate\<close> succeeds, the receiver differs from what it was in the plan
  options alone, and they are the mapping that the configuration entry of the plan
  and of the pool's provisioner converts to, whatever the caller had put there; name,
  pool, plan name, team owner, status and options are unchanged.
\<close>

theorem Validate_success_frame:
  assumes "Validate env v = (log, v', None)"
  shows "\<exists>pool prov data planOpts.
           GetPoolByName env (Pool v) = Inr pool \<and>
           GetProvisioner env pool = Inr prov \<and>
           config_Get env (volumePlanKey (VolumePlan.Name (Plan v)) (GetName env prov)) = Inr data \<and>
           ConvertEntries env data = GMapS planOpts \<and>
           v' = v\<lparr>Plan := (Plan v)\<lparr>VolumePlan.Opts := planOpts\<rparr>\<rparr> \<and>
           VolumePlan.Opts (Plan v') = planOpts \<and>
           Volume.Name v' = Volume.Name v \<and> Pool v' = Pool v \<and>
           VolumePlan.Name (Plan v') = VolumePlan.Name (Plan v) \<and>
           TeamOwner v' = TeamOwner v \<and> Status v' = Status v \<and>
           Volume.Opts v' = Volume.Opts v"
  using Validate_cases [OF assms] by auto

theorem Validate_success_frame_witness:
  "Validate example_env ((example_volume ''v1'' ''plan1'')
       \<lparr>Plan := \<lparr>VolumePlan.Name = ''plan1'',
                 VolumePlan.Opts = fmap_of_list [(''size'', GString ''1Ki''), (''x'', GNil)]\<rparr>\<rparr>)
     = ([LookupPool ''p1'', LookupTeam ''team1'', LookupProvisioner,
         LookupConfig ''volume-plans:plan1:docker''],
        (example_volume ''v1'' ''plan1'')
          \<lparr>Plan := \<lparr>VolumePlan.Name = ''plan1'',
                    VolumePlan.Opts = fmap_of_list [(''size'', GString ''10Gi'')]\<rparr>\<rparr>, None)"
proof -
  let ?v = "(example_volume ''v1'' ''plan1'')
       \<lparr>Plan := \<lparr>VolumePlan.Name = ''plan1'',
                 VolumePlan.Opts = fmap_of_list [(''size'', GString ''1Ki''), (''x'', GNil)]\<rparr>\<rparr>"
  obtain log v' r where h: "Validate example_env ?v = (log, v', r)"
    using prod_cases3 by blast
  have l: "log = [LookupPool ''p1'', LookupTeam ''team1'', LookupProvisioner,
         LookupConfig ''volume-plans:plan1:docker'']" and r: "r = None"
    using h by (simp_all add: Validate_def example_env_def example_volume_def volumePlanKey_def Let_def)
  from h r Validate_success_frame [of example_env ?v log v']
  have "v' = (example_volume ''v1'' ''plan1'')
          \<lparr>Plan := \<lparr>VolumePlan.Name = ''plan1'',
                    VolumePlan.Opts = fmap_of_list [(''size'', GString ''10Gi'')]\<rparr>\<rparr>"
    by (auto simp add: example_env_def example_volume_def volumePlanKey_def split: if_splits)
  with h l r show ?thesis by simp
qed

text \<open>
  C4. For a volume with the empty name, \<open>Validate\<close> and \<open>Save\<close> fail with the
  empty-name error, having made no lookup (the log is empty, in any environment), and
  \<open>Save\<close> leaves the store as it was.
\<close>

theorem empty_name_fails_first:
  assumes "Volume.Name v = ''''"
  shows "Validate env v = ([], v, Some (ErrorsNew ''volume name cannot be empty'')) \<and>
         Save env io v s = ([], v, s, Some (ErrorsNew ''volume name cannot be empty''))"
  using assms by (simp add: Validate_def Save_def)

theorem empty_name_fails_first_witness:
  "Validate example_env (example_volume '''' ''plan1'')
     = ([], example_volume '''' ''plan1'', Some (ErrorsNew ''volume name cannot be empty'')) \<and>
   Save example_env no_faults (example_volume '''' ''plan1'') \<lparr>Volumes = [], VolumeBinds = []\<rparr>
     = ([], example_volume '''' ''plan1'', \<lparr>Volumes = [], VolumeBinds = []\<rparr>,
        Some (ErrorsNew ''volume name cannot be empty''))"
  using empty_name_fails_first [of "example_volume '''' ''plan1''" example_env no_faults
      "\<lparr>Volumes = [], VolumeBinds = []\<rparr>"]
  by (simp add: example_volume_def)

lemma Validate_type_mismatch:
  assumes "Validate env v = (log, v', Some (ErrorsNew msg))"
      and "Volume.Name v \<noteq> ''''"
  shows "msg = ''invalid type for plan opts map[string]interface {}''"
  using assms unfolding Validate_def Let_def
  by (auto split: if_splits sum.splits prod.splits elim!: assert_map_string.elims)

text \<open>
  C2. The message of the type-mismatch error is built from \<open>planOpts\<close>, the zero
  value that the failed type assertion returns, not from the value that was looked up:
  it names \<^verbatim>\<open>map[string]interface {}\<close> for every value (lemma \<open>Validate_type_mismatch\<close>).
  For the plan configured with the boolean \<open>true\<close> the message is the one below, and
  the type name \<open>bool\<close> of the value received is nowhere in it.
\<close>

theorem Validate_mismatch_message_bool:
  "Validate example_env (example_volume ''v1'' ''plan2'')
     = ([LookupPool ''p1'', LookupTeam ''team1'', LookupProvisioner,
         LookupConfig ''volume-plans:plan2:docker''],
        example_volume ''v1'' ''plan2'',
        Some (ErrorsNew ''invalid type for plan opts map[string]interface {}'')) \<and>
   config_Get example_env ''volume-plans:plan2:docker'' = Inr (GBool True) \<and>
   ConvertEntries example_env (GBool True) = GBool True \<and>
   type_name (GBool True) = ''bool'' \<and>
   \<not> sublist ''bool'' ''invalid type for plan opts map[string]interface {}''"
proof -
  have "\<not> sublist ''bool'' ''invalid type for plan opts map[string]interface {}''"
    by code_simp
  then show ?thesis
    by (simp add: Validate_def example_env_def example_volume_def volumePlanKey_def Let_def)
qed

section \<open>Properties of the store\<close>

lemma Insert_fresh:
  "key d \<notin> set (map key c) \<Longrightarrow> Insert None key d c = (c @ [d], None)"
  by (simp add: Insert_def)

lemma Insert_dup:
  "key d \<in> set (map key c) \<Longrightarrow> Insert None key d c = (c, Some MgoDup)"
  by (simp add: Insert_def)

lemma Insert_distinct:
  "distinct (map key c) \<Longrightarrow> Insert fault key d c = (c', r) \<Longrightarrow> distinct (map key c')"
  by (auto simp add: Insert_def split: option.splits if_splits)

lemma remove_first_absent:
  "i \<notin> set (map key c) \<Longrightarrow> remove_first key i c = c"
  by (induction c) auto

lemma remove_first_snoc:
  "i \<notin> set (map key c) \<Longrightarrow> key d = i \<Longrightarrow> remove_first key i (c @ [d]) = c"
  by (induction c) auto

lemma remove_first_filter:
  "distinct (map key c) \<Longrightarrow> remove_first key i c = filter (\<lambda>x. key x \<noteq> i) c"
proof (induction c)
  case Nil
  then show ?case by simp
next
  case (Cons x xs)
  show ?case
  proof (cases "key x = i")
    case True
    with Cons.prems have "i \<notin> set (map key xs)" by auto
    then have "filter (\<lambda>y. key y \<noteq> i) xs = xs" by (induction xs) auto
    with True show ?thesis by simp
  next
    case False
    with Cons show ?thesis by simp
  qed
qed

lemma remove_first_length:
  "i \<in> set (map key c) \<Longrightarrow> Suc (length (remove_first key i c)) = length c"
  by (induction c) auto

lemma remove_first_others:
  "filter (\<lambda>x. key x \<noteq> i) (remove_first key i c) = filter (\<lambda>x. key x \<noteq> i) c"
  by (induction c) auto

lemma RemoveId_distinct:
  "distinct (map key c) \<Longrightarrow> RemoveId fault key i c = (c', r) \<Longrightarrow> distinct (map key c')"
  by (auto simp add: RemoveId_def remove_first_filter distinct_map_filter
      split: option.splits if_splits)

lemma UpsertId_keys:
  "UpsertId fault key i d c = (c', r) \<Longrightarrow> key d = i \<Longrightarrow> i \<in> set (map key c)
     \<Longrightarrow> map key c' = map key c"
  by (auto simp add: UpsertId_def split: option.splits)

lemma UpsertId_distinct:
  "distinct (map key c) \<Longrightarrow> UpsertId fault key i d c = (c', r) \<Longrightarrow> key d = i
     \<Longrightarrow> distinct (map key c')"
proof (cases "i \<in> set (map key c)")
  case True
  assume "distinct (map key c)" "UpsertId fault key i d c = (c', r)" "key d = i"
  with True UpsertId_keys [of fault key i d c c' r] show ?thesis by simp
next
  case False
  assume "distinct (map key c)" "UpsertId fault key i d c = (c', r)" "key d = i"
  with False show ?thesis by (auto simp add: UpsertId_def split: option.splits)
qed

lemma find_after_replace:
  "i \<in> set (map key c) \<Longrightarrow> key d = i
     \<Longrightarrow> find (\<lambda>x. key x = i) (map (\<lambda>x. if key x = i then d else x) c) = Some d"
  by (induction c) auto

lemma find_after_append:
  "i \<notin> set (map key c) \<Longrightarrow> key d = i \<Longrightarrow> find (\<lambda>x. key x = i) (c @ [d]) = Some d"
  by (induction c) auto

lemma find_absent:
  "i \<notin> set (map key c) \<Longrightarrow> find (\<lambda>x. key x = i) c = None"
  by (induction c) auto

lemma BindApp_wf: "wf_db s \<Longrightarrow> BindApp Quote io v a m mode s = (s', r) \<Longrightarrow> wf_db s'"
  unfolding BindApp_def Let_def wf_db_def
  by (auto split: if_splits option.splits prod.splits dest: Insert_distinct)

lemma UnbindApp_wf: "wf_db s \<Longrightarrow> UnbindApp io v a m s = (s', r) \<Longrightarrow> wf_db s'"
  unfolding UnbindApp_def wf_db_def
  by (auto split: if_splits option.splits prod.splits dest: RemoveId_distinct)

lemma marshal_id: "d_id (marshal v) = Volume.Name v"
  by (simp add: marshal_def)

lemma Save_wf: "wf_db s \<Longrightarrow> Save env io v s = (log, v', s', r) \<Longrightarrow> wf_db s'"
  unfolding Save_def wf_db_def
  by (auto split: if_splits option.splits prod.splits dest: UpsertId_distinct simp add: marshal_id)

text \<open>
  C1. When no bind record has the triple (app, mount point, volume), a \<open>BindApp\<close>
  call with a valid mode on a reachable store succeeds and adds one record, after
  which exactly one record has the triple; a second call with the same triple fails
  with \<open>ErrVolumeAlreadyBound\<close> and leaves the store as it is, so no second record
  appears and the duplicate key is not reported as a storage fault. Unique ids stay
  unique.
\<close>

theorem BindApp_at_most_once:
  assumes "mode1 = '''' \<or> mode1 = ''ro'' \<or> mode1 = ''rw''"
      and "mode2 = '''' \<or> mode2 = ''ro'' \<or> mode2 = ''rw''"
      and "Conn_err io1 = None" and "Op_err io1 = None"
      and "Conn_err io2 = None" and "Op_err io2 = None"
      and "\<lparr>App = a, MountPoint = m, Volume = Volume.Name v\<rparr> \<notin> set (map ID (VolumeBinds s))"
      and "bind = \<lparr>ID = \<lparr>App = a, MountPoint = m, Volume = Volume.Name v\<rparr>,
                   Mode = (if mode1 = '''' then ''rw'' else mode1)\<rparr>"
  shows "BindApp Quote io1 v a m mode1 s = (s\<lparr>VolumeBinds := VolumeBinds s @ [bind]\<rparr>, None) \<and>
         length (filter (\<lambda>b. ID b = \<lparr>App = a, MountPoint = m, Volume = Volume.Name v\<rparr>)
                   (VolumeBinds s @ [bind])) = 1 \<and>
         (wf_db s \<longrightarrow> wf_db (s\<lparr>VolumeBinds := VolumeBinds s @ [bind]\<rparr>)) \<and>
         BindApp Quote io2 v a m mode2 (s\<lparr>VolumeBinds := VolumeBinds s @ [bind]\<rparr>)
           = (s\<lparr>VolumeBinds := VolumeBinds s @ [bind]\<rparr>, Some ErrVolumeAlreadyBound)"
proof -
  let ?key = "\<lparr>App = a, MountPoint = m, Volume = Volume.Name v\<rparr>"
  let ?s' = "s\<lparr>VolumeBinds := VolumeBinds s @ [bind]\<rparr>"
  have first: "BindApp Quote io1 v a m mode1 s = (?s', None)"
    using assms(1,3,4,7,8)
    by (auto simp add: BindApp_def Let_def Insert_def BindModeReadOnly_def BindModeReadWrite_def)
  have none: "filter (\<lambda>b. ID b = ?key) (VolumeBinds s) = []"
    using assms(7) by (force simp add: filter_empty_conv)
  have count: "length (filter (\<lambda>b. ID b = ?key) (VolumeBinds s @ [bind])) = 1"
    using none assms(8) by simp
  have wf: "wf_db s \<longrightarrow> wf_db ?s'"
    using assms(7,8) by (simp add: wf_db_def)
  have second: "BindApp Quote io2 v a m mode2 ?s' = (?s', Some ErrVolumeAlreadyBound)"
    using assms(2,5,6,8)
    by (auto simp add: BindApp_def Let_def Insert_def BindModeReadOnly_def BindModeReadWrite_def)
  from first count wf second show ?thesis by simp
qed

theorem BindApp_at_most_once_witness:
  "BindApp example_Quote no_faults (example_volume ''v1'' ''plan1'') ''app1'' ''/data'' ''rw''
       empty_db
     = (\<lparr>Volumes = [], VolumeBinds = [example_bind ''app1'' ''/data'' ''v1'' ''rw'']\<rparr>, None) \<and>
   BindApp example_Quote no_faults (example_volume ''v1'' ''plan1'') ''app1'' ''/data'' ''ro''
       \<lparr>Volumes = [], VolumeBinds = [example_bind ''app1'' ''/data'' ''v1'' ''rw'']\<rparr>
     = (\<lparr>Volumes = [], VolumeBinds = [example_bind ''app1'' ''/data'' ''v1'' ''rw'']\<rparr>,
        Some ErrVolumeAlreadyBound)"
  using BindApp_at_most_once [of "''rw''" "''ro''" no_faults no_faults "''app1''" "''/data''"
      "example_volume ''v1'' ''plan1''" empty_db "example_bind ''app1'' ''/data'' ''v1'' ''rw''"
      example_Quote]
  by (simp add: no_faults_def empty_db_def example_volume_def example_bind_def)

text \<open>
  C7. \<open>BindApp\<close> treats the empty mode as \<open>rw\<close>, and the record it stores then
  has mode \<open>rw\<close>. For a mode other than \<open>ro\<close>, \<open>rw\<close> and the empty one it fails
  with the invalid-bind-mode error, whose message holds the \<^verbatim>\<open>%q\<close> renderings of
  both valid modes and of the offending one, and the store is unchanged. Where
  \<^verbatim>\<open>%q\<close> renders a string as itself between double quotes, as it does for a string
  that needs no escape, the message holds the three values themselves.
\<close>

theorem BindApp_mode_check:
  "BindApp Quote io v a m '''' s = BindApp Quote io v a m BindModeReadWrite s \<and>
   (Conn_err io = None \<and> Op_err io = None \<and>
    \<lparr>App = a, MountPoint = m, Volume = Volume.Name v\<rparr> \<notin> set (map ID (VolumeBinds s)) \<longrightarrow>
      BindApp Quote io v a m '''' s =
        (s\<lparr>VolumeBinds := VolumeBinds s @
             [\<lparr>ID = \<lparr>App = a, MountPoint = m, Volume = Volume.Name v\<rparr>, Mode = ''rw''\<rparr>]\<rparr>,
         None)) \<and>
   (mode \<noteq> '''' \<and> mode \<noteq> ''ro'' \<and> mode \<noteq> ''rw'' \<longrightarrow>
      (\<exists>msg. BindApp Quote io v a m mode s = (s, Some (ErrorsNew msg)) \<and>
             msg = ''invalid bind mode, expected '' @ Quote ''ro'' @ '' or '' @ Quote ''rw''
                     @ '', got '' @ Quote mode \<and>
             sublist (Quote ''ro'') msg \<and> sublist (Quote ''rw'') msg \<and>
             sublist (Quote mode) msg \<and>
             (Quote ''ro'' = [CHR 0x22] @ ''ro'' @ [CHR 0x22] \<and>
              Quote ''rw'' = [CHR 0x22] @ ''rw'' @ [CHR 0x22] \<and>
              Quote mode = [CHR 0x22] @ mode @ [CHR 0x22] \<longrightarrow>
                sublist ''ro'' msg \<and> sublist ''rw'' msg \<and> sublist mode msg)))"
proof -
  have norm: "BindApp Quote io v a m '''' s = BindApp Quote io v a m BindModeReadWrite s"
    by (simp add: BindApp_def Let_def BindModeReadWrite_def)
  have stored: "Conn_err io = None \<and> Op_err io = None \<and>
    \<lparr>App = a, MountPoint = m, Volume = Volume.Name v\<rparr> \<notin> set (map ID (VolumeBinds s)) \<longrightarrow>
      BindApp Quote io v a m '''' s =
        (s\<lparr>VolumeBinds := VolumeBinds s @
             [\<lparr>ID = \<lparr>App = a, MountPoint = m, Volume = Volume.Name v\<rparr>, Mode = ''rw''\<rparr>]\<rparr>,
         None)"
    by (auto simp add: BindApp_def Let_def Insert_def BindModeReadOnly_def BindModeReadWrite_def)
  have bad: "mode \<noteq> '''' \<and> mode \<noteq> ''ro'' \<and> mode \<noteq> ''rw'' \<longrightarrow>
      BindApp Quote io v a m mode s =
        (s, Some (ErrorsNew (''invalid bind mode, expected '' @ Quote ''ro'' @ '' or ''
                   @ Quote ''rw'' @ '', got '' @ Quote mode)))"
    by (simp add: BindApp_def Let_def BindModeReadOnly_def BindModeReadWrite_def)
  have s1: "sublist (Quote ''ro'') (''invalid bind mode, expected '' @ Quote ''ro'' @ '' or ''
                   @ Quote ''rw'' @ '', got '' @ Quote mode)"
    unfolding sublist_def by blast
  have s2: "sublist (Quote ''rw'') (''invalid bind mode, expected '' @ Quote ''ro'' @ '' or ''
                   @ Quote ''rw'' @ '', got '' @ Quote mode)"
    unfolding sublist_def
    by (rule exI [of _ "''invalid bind mode, expected '' @ Quote ''ro'' @ '' or ''"],
        rule exI [of _ "'', got '' @ Quote mode"]) simp
  have s3: "sublist (Quote mode) (''invalid bind mode, expected '' @ Quote ''ro'' @ '' or ''
                   @ Quote ''rw'' @ '', got '' @ Quote mode)"
    unfolding sublist_def
    by (rule exI [of _ "''invalid bind mode, expected '' @ Quote ''ro'' @ '' or ''
                   @ Quote ''rw'' @ '', got ''"], rule exI [of _ "[]"]) simp
  have inner: "sublist x msg" if "sublist (Quote x) msg" "Quote x = [CHR 0x22] @ x @ [CHR 0x22]"
    for x msg
  proof -
    have "sublist x (Quote x)"
      unfolding that(2) sublist_def by blast
    then show ?thesis using that(1) by (rule sublist_order.order.trans)
  qed
  from norm stored bad s1 s2 s3 inner show ?thesis by blast
qed

theorem BindApp_mode_check_witness:
  "BindApp example_Quote no_faults (example_volume ''v1'' ''plan1'') ''app1'' ''/data'' ''xx''
       empty_db
     = (empty_db, Some (ErrorsNew (''invalid bind mode, expected '' @ [CHR 0x22] @ ''ro''
          @ [CHR 0x22] @ '' or '' @ [CHR 0x22] @ ''rw'' @ [CHR 0x22] @ '', got '' @ [CHR 0x22]
          @ ''xx'' @ [CHR 0x22]))) \<and>
   sublist ''xx'' (''invalid bind mode, expected '' @ [CHR 0x22] @ ''ro''
          @ [CHR 0x22] @ '' or '' @ [CHR 0x22] @ ''rw'' @ [CHR 0x22] @ '', got '' @ [CHR 0x22]
          @ ''xx'' @ [CHR 0x22]) \<and>
   BindApp example_Quote no_faults (example_volume ''v1'' ''plan1'') ''app1'' ''/data'' ''''
       empty_db
     = (\<lparr>Volumes = [], VolumeBinds = [example_bind ''app1'' ''/data'' ''v1'' ''rw'']\<rparr>, None)"
  using BindApp_mode_check [of example_Quote no_faults "example_volume ''v1'' ''plan1''"
      "''app1''" "''/data''" empty_db "''xx''"]
  by (auto simp add: no_faults_def empty_db_def example_volume_def example_bind_def
      example_Quote_def)

lemma BindApp_success:
  assumes "BindApp Quote io v a m mode s0 = (s, None)"
  shows "\<lparr>App = a, MountPoint = m, Volume = Volume.Name v\<rparr> \<notin> set (map ID (VolumeBinds s0)) \<and>
         (\<exists>bm. s = s0\<lparr>VolumeBinds := VolumeBinds s0 @
                    [\<lparr>ID = \<lparr>App = a, MountPoint = m, Volume = Volume.Name v\<rparr>, Mode = bm\<rparr>]\<rparr>)"
  using assms unfolding BindApp_def Let_def Insert_def
  by (auto split: if_splits option.splits)

text \<open>
  C8. On a reachable store \<open>UnbindApp\<close> fails with \<open>ErrVolumeBindNotFound\<close>, changing
  nothing, when no record has the triple (app, mount point, volume name); when one
  has, it succeeds and removes that record and no other. So after a successful
  \<open>BindApp\<close> the first \<open>UnbindApp\<close> with the same coordinates succeeds, giving back
  the store as it was before the bind, and the next one fails with
  \<open>ErrVolumeBindNotFound\<close>.
\<close>

theorem UnbindApp_contract:
  assumes "Conn_err io = None" and "Op_err io = None"
      and "key = \<lparr>App = a, MountPoint = m, Volume = Volume.Name v\<rparr>"
  shows "(key \<notin> set (map ID (VolumeBinds s)) \<longrightarrow>
            UnbindApp io v a m s = (s, Some ErrVolumeBindNotFound)) \<and>
         (key \<in> set (map ID (VolumeBinds s)) \<longrightarrow>
            UnbindApp io v a m s = (s\<lparr>VolumeBinds := remove_first ID key (VolumeBinds s)\<rparr>, None) \<and>
            Suc (length (remove_first ID key (VolumeBinds s))) = length (VolumeBinds s) \<and>
            filter (\<lambda>b. ID b \<noteq> key) (remove_first ID key (VolumeBinds s))
              = filter (\<lambda>b. ID b \<noteq> key) (VolumeBinds s) \<and>
            (wf_db s \<longrightarrow>
               remove_first ID key (VolumeBinds s) = filter (\<lambda>b. ID b \<noteq> key) (VolumeBinds s))) \<and>
         (\<forall>Quote io0 mode s0.
            BindApp Quote io0 v a m mode s0 = (s, None) \<longrightarrow>
              UnbindApp io v a m s = (s0, None) \<and>
              UnbindApp io v a m s0 = (s0, Some ErrVolumeBindNotFound))"
proof -
  have absent: "UnbindApp io v a m t = (t, Some ErrVolumeBindNotFound)"
    if "key \<notin> set (map ID (VolumeBinds t))" for t
    using that assms by (simp add: UnbindApp_def RemoveId_def)
  have present: "UnbindApp io v a m t = (t\<lparr>VolumeBinds := remove_first ID key (VolumeBinds t)\<rparr>, None)"
    if "key \<in> set (map ID (VolumeBinds t))" for t
    using that assms by (simp add: UnbindApp_def RemoveId_def)
  have len: "key \<in> set (map ID (VolumeBinds s)) \<longrightarrow>
               Suc (length (remove_first ID key (VolumeBinds s))) = length (VolumeBinds s)"
    using remove_first_length [of key ID "VolumeBinds s"] by blast
  have others: "filter (\<lambda>b. ID b \<noteq> key) (remove_first ID key (VolumeBinds s))
                  = filter (\<lambda>b. ID b \<noteq> key) (VolumeBinds s)"
    by (rule remove_first_others)
  have exact: "wf_db s \<longrightarrow>
                 remove_first ID key (VolumeBinds s) = filter (\<lambda>b. ID b \<noteq> key) (VolumeBinds s)"
    by (simp add: wf_db_def remove_first_filter)
  have seq: "UnbindApp io v a m s = (s0, None) \<and>
             UnbindApp io v a m s0 = (s0, Some ErrVolumeBindNotFound)"
    if bound: "BindApp Quote io0 v a m mode s0 = (s, None)" for Quote io0 mode s0
  proof -
    from BindApp_success [OF bound] assms(3) obtain bm
      where fresh: "key \<notin> set (map ID (VolumeBinds s0))"
        and s: "s = s0\<lparr>VolumeBinds := VolumeBinds s0 @ [\<lparr>ID = key, Mode = bm\<rparr>]\<rparr>"
      by auto
    from s have "key \<in> set (map ID (VolumeBinds s))" by simp
    from present [OF this] s fresh
    have "UnbindApp io v a m s = (s0, None)"
      by (simp add: remove_first_snoc)
    with absent [OF fresh] show ?thesis by simp
  qed
  from absent present len others exact seq show ?thesis by blast
qed

theorem UnbindApp_contract_witness:
  "UnbindApp no_faults (example_volume ''v1'' ''plan1'') ''app1'' ''/data''
       \<lparr>Volumes = [], VolumeBinds = [example_bind ''app1'' ''/data'' ''v1'' ''rw'']\<rparr>
     = (empty_db, None) \<and>
   UnbindApp no_faults (example_volume ''v1'' ''plan1'') ''app1'' ''/data'' empty_db
     = (empty_db, Some ErrVolumeBindNotFound) \<and>
   UnbindApp no_faults (example_volume ''v1'' ''plan1'') ''app1'' ''/data'' example_db
     = (example_db\<lparr>VolumeBinds := [example_bind ''app1'' ''/logs'' ''v1'' ''ro'',
                                     example_bind ''app1'' ''/tmp'' ''v2'' ''rw'',
                                     example_bind ''app2'' ''/data'' ''v3'' ''rw'']\<rparr>, None)"
proof -
  let ?v = "example_volume ''v1'' ''plan1''"
  let ?key = "\<lparr>App = ''app1'', MountPoint = ''/data'', Volume = ''v1''\<rparr>"
  let ?s1 = "\<lparr>Volumes = [], VolumeBinds = [example_bind ''app1'' ''/data'' ''v1'' ''rw'']\<rparr>"
  have io: "Conn_err no_faults = None" "Op_err no_faults = None"
    by (simp_all add: no_faults_def)
  have key: "?key = \<lparr>App = ''app1'', MountPoint = ''/data'', Volume = Volume.Name ?v\<rparr>"
    by (simp add: example_volume_def)
  have bound: "BindApp example_Quote no_faults ?v ''app1'' ''/data'' ''rw'' empty_db = (?s1, None)"
    by (simp add: BindApp_def Insert_def Let_def no_faults_def empty_db_def example_volume_def
        example_bind_def BindModeReadOnly_def BindModeReadWrite_def)
  from UnbindApp_contract [OF io key, of ?s1] bound
  have a: "UnbindApp no_faults ?v ''app1'' ''/data'' ?s1 = (empty_db, None)"
   and b: "UnbindApp no_faults ?v ''app1'' ''/data'' empty_db
             = (empty_db, Some ErrVolumeBindNotFound)"
    by blast+
  have "wf_db example_db"
    by (simp add: wf_db_def example_db_def example_doc_def example_bind_def)
  with UnbindApp_contract [OF io key, of example_db]
  have c: "UnbindApp no_faults ?v ''app1'' ''/data'' example_db
     = (example_db\<lparr>VolumeBinds := [example_bind ''app1'' ''/logs'' ''v1'' ''ro'',
                                     example_bind ''app1'' ''/tmp'' ''v2'' ''rw'',
                                     example_bind ''app2'' ''/data'' ''v3'' ''rw'']\<rparr>, None)"
    by (simp add: example_db_def example_bind_def)
  from a b c show ?thesis by simp
qed

lemma unmarshal_marshal:
  "unmarshal (marshal v)
     = v\<lparr>Volume.Opts := (if Volume.Opts v = Some fmempty then None else Volume.Opts v)\<rparr>"
  by (cases "Volume.Opts v") (simp_all add: unmarshal_def marshal_def)

lemma Validate_name: "Validate env v = (log, v', r) \<Longrightarrow> Volume.Name v' = Volume.Name v"
  using Validate_cases [of env v log v' r] by auto

lemma Save_success:
  assumes "Save env io v s = (log, v', s', None)"
  shows "Validate env v = (log, v', None) \<and> Conn_err io = None \<and> Op_err io = None \<and>
         s' = s\<lparr>Volumes := fst (UpsertId None d_id (Volume.Name v') (marshal v') (Volumes s))\<rparr>"
proof -
  obtain l w r where val: "Validate env v = (l, w, r)"
    using prod_cases3 by blast
  with assms have r: "r = None" and l: "l = log" and w: "w = v'"
    by (auto simp add: Save_def split: option.splits prod.splits)
  from assms val r have conn: "Conn_err io = None"
    by (auto simp add: Save_def split: option.splits prod.splits)
  obtain docs e where ups: "UpsertId (Op_err io) d_id (Volume.Name w) (marshal w) (Volumes s) = (docs, e)"
    by (cases "UpsertId (Op_err io) d_id (Volume.Name w) (marshal w) (Volumes s)")
  with assms val r conn have e: "e = None" and s': "s' = s\<lparr>Volumes := docs\<rparr>"
    by (auto simp add: Save_def elim: WithStack_nil.elims)
  from ups e have op: "Op_err io = None"
    by (auto simp add: UpsertId_def split: option.splits)
  from val r l w conn op ups s' show ?thesis by simp
qed

text \<open>
  C5. \<open>Save\<close> is \<open>Validate\<close> followed by an upsert by id. When validation fails,
  \<open>Save\<close> returns that very error and the store is untouched. When it succeeds and
  the store is reachable, the document of the validated volume is stored under the
  volume's name: it takes the place of the document with that id when there is one,
  the others staying as they are, and it is added when there is none.
\<close>

theorem Save_validate_then_upsert:
  assumes "Validate env v = (log, v', r)"
  shows "(r \<noteq> None \<longrightarrow> Save env io v s = (log, v', s, r)) \<and>
         (r = None \<and> Conn_err io = None \<and> Op_err io = None \<longrightarrow>
            d_id (marshal v') = Volume.Name v \<and>
            (Volume.Name v \<in> set (map d_id (Volumes s)) \<longrightarrow>
               Save env io v s =
                 (log, v',
                  s\<lparr>Volumes := map (\<lambda>d. if d_id d = Volume.Name v then marshal v' else d)
                                   (Volumes s)\<rparr>,
                  None)) \<and>
            (Volume.Name v \<notin> set (map d_id (Volumes s)) \<longrightarrow>
               Save env io v s = (log, v', s\<lparr>Volumes := Volumes s @ [marshal v']\<rparr>, None)))"
proof -
  have name: "Volume.Name v' = Volume.Name v"
    using assms by (rule Validate_name)
  have failed: "r \<noteq> None \<longrightarrow> Save env io v s = (log, v', s, r)"
    using assms by (auto simp add: Save_def)
  have id: "d_id (marshal v') = Volume.Name v"
    using name by (simp add: marshal_id)
  have replaced: "Save env io v s =
                 (log, v',
                  s\<lparr>Volumes := map (\<lambda>d. if d_id d = Volume.Name v then marshal v' else d)
                                   (Volumes s)\<rparr>,
                  None)"
    if "r = None" "Conn_err io = None" "Op_err io = None"
       "Volume.Name v \<in> set (map d_id (Volumes s))"
    using that assms name by (simp add: Save_def UpsertId_def)
  have created: "Save env io v s = (log, v', s\<lparr>Volumes := Volumes s @ [marshal v']\<rparr>, None)"
    if "r = None" "Conn_err io = None" "Op_err io = None"
       "Volume.Name v \<notin> set (map d_id (Volumes s))"
    using that assms name by (simp add: Save_def UpsertId_def)
  from failed id replaced created show ?thesis by auto
qed

theorem Save_validate_then_upsert_witness:
  "Save example_env no_faults ((example_volume ''v1'' ''plan1'')\<lparr>Status := ''ready''\<rparr>) example_db
     = ([LookupPool ''p1'', LookupTeam ''team1'', LookupProvisioner,
         LookupConfig ''volume-plans:plan1:docker''],
        (example_volume ''v1'' ''plan1'')
          \<lparr>Status := ''ready'',
           Plan := \<lparr>VolumePlan.Name = ''plan1'',
                    VolumePlan.Opts = fmap_of_list [(''size'', GString ''10Gi'')]\<rparr>\<rparr>,
        example_db\<lparr>Volumes := [(example_doc ''v1'')\<lparr>d_status := ''ready''\<rparr>, example_doc ''v3'']\<rparr>,
        None) \<and>
   Save example_env no_faults (example_volume ''v2'' ''plan1'') example_db
     = ([LookupPool ''p1'', LookupTeam ''team1'', LookupProvisioner,
         LookupConfig ''volume-plans:plan1:docker''],
        (example_volume ''v2'' ''plan1'')
          \<lparr>Plan := \<lparr>VolumePlan.Name = ''plan1'',
                    VolumePlan.Opts = fmap_of_list [(''size'', GString ''10Gi'')]\<rparr>\<rparr>,
        example_db\<lparr>Volumes := [example_doc ''v1'', example_doc ''v3'', example_doc ''v2'']\<rparr>,
        None) \<and>
   Save example_env no_faults (example_volume ''v1'' ''plan3'') example_db
     = ([LookupPool ''p1'', LookupTeam ''team1'', LookupProvisioner,
         LookupConfig ''volume-plans:plan3:docker''],
        example_volume ''v1'' ''plan3'', example_db,
        Some (WithStack (Failure ''key not found'')))"
proof -
  let ?log = "[LookupPool ''p1'', LookupTeam ''team1'', LookupProvisioner,
         LookupConfig ''volume-plans:plan1:docker'']"
  let ?opts = "\<lparr>VolumePlan.Name = ''plan1'',
                    VolumePlan.Opts = fmap_of_list [(''size'', GString ''10Gi'')]\<rparr>"
  have v1: "Validate example_env ((example_volume ''v1'' ''plan1'')\<lparr>Status := ''ready''\<rparr>)
              = (?log, (example_volume ''v1'' ''plan1'')\<lparr>Status := ''ready'', Plan := ?opts\<rparr>, None)"
    by (simp add: Validate_def example_env_def example_volume_def volumePlanKey_def Let_def)
  have v2: "Validate example_env (example_volume ''v2'' ''plan1'')
              = (?log, (example_volume ''v2'' ''plan1'')\<lparr>Plan := ?opts\<rparr>, None)"
    by (simp add: Validate_def example_env_def example_volume_def volumePlanKey_def Let_def)
  have v3: "Validate example_env (example_volume ''v1'' ''plan3'')
              = ([LookupPool ''p1'', LookupTeam ''team1'', LookupProvisioner,
                  LookupConfig ''volume-plans:plan3:docker''],
                 example_volume ''v1'' ''plan3'', Some (WithStack (Failure ''key not found'')))"
    by (simp add: Validate_def example_env_def example_volume_def volumePlanKey_def Let_def)
  have a: "Save example_env no_faults ((example_volume ''v1'' ''plan1'')\<lparr>Status := ''ready''\<rparr>) example_db
     = (?log, (example_volume ''v1'' ''plan1'')\<lparr>Status := ''ready'', Plan := ?opts\<rparr>,
        example_db\<lparr>Volumes := [(example_doc ''v1'')\<lparr>d_status := ''ready''\<rparr>, example_doc ''v3'']\<rparr>,
        None)"
    using Save_validate_then_upsert [OF v1, of no_faults example_db]
    by (simp add: no_faults_def example_db_def example_doc_def example_volume_def marshal_def)
  have b: "Save example_env no_faults (example_volume ''v2'' ''plan1'') example_db
     = (?log, (example_volume ''v2'' ''plan1'')\<lparr>Plan := ?opts\<rparr>,
        example_db\<lparr>Volumes := [example_doc ''v1'', example_doc ''v3'', example_doc ''v2'']\<rparr>,
        None)"
    using Save_validate_then_upsert [OF v2, of no_faults example_db]
    by (simp add: no_faults_def example_db_def example_doc_def example_volume_def marshal_def)
  have c: "Save example_env no_faults (example_volume ''v1'' ''plan3'') example_db
     = ([LookupPool ''p1'', LookupTeam ''team1'', LookupProvisioner,
         LookupConfig ''volume-plans:plan3:docker''],
        example_volume ''v1'' ''plan3'', example_db,
        Some (WithStack (Failure ''key not found'')))"
    using Save_validate_then_upsert [OF v3, of no_faults example_db] by simp
  from a b c show ?thesis by simp
qed

text \<open>
  C9. When \<open>Save\<close> has accepted a volume, \<open>Load\<close> of its name on the store that
  \<open>Save\<close> left, the store still reachable, returns the saved volume field by field,
  except that options which were an empty map come back absent. The saved volume is
  the receiver as \<open>Save\<close> left it: the caller's volume with its plan options
  resolved. \<open>Load\<close> of a name that no stored document has fails with
  \<open>ErrVolumeNotFound\<close>.
\<close>

theorem Save_Load_roundtrip:
  assumes "Conn_err io2 = None" and "Op_err io2 = None"
  shows "(Save env io v s = (log, v', s', None) \<longrightarrow>
            Load io2 (Volume.Name v) s'
              = Inr (v'\<lparr>Volume.Opts :=
                         (if Volume.Opts v' = Some fmempty then None else Volume.Opts v')\<rparr>) \<and>
            (\<exists>planOpts. v' = v\<lparr>Plan := (Plan v)\<lparr>VolumePlan.Opts := planOpts\<rparr>\<rparr>)) \<and>
         (name \<notin> set (map d_id (Volumes t)) \<longrightarrow> Load io2 name t = Inl ErrVolumeNotFound)"
proof -
  have missing: "Load io2 name t = Inl ErrVolumeNotFound"
    if "name \<notin> set (map d_id (Volumes t))"
    using that assms find_absent [of name d_id "Volumes t"]
    by (simp add: Load_def FindId_One_def)
  have resolved: "\<exists>planOpts. v' = v\<lparr>Plan := (Plan v)\<lparr>VolumePlan.Opts := planOpts\<rparr>\<rparr>"
    if saved: "Save env io v s = (log, v', s', None)"
    using Save_success [OF saved] Validate_cases [of env v log v' None] by auto
  have loaded: "Load io2 (Volume.Name v) s'
              = Inr (v'\<lparr>Volume.Opts :=
                         (if Volume.Opts v' = Some fmempty then None else Volume.Opts v')\<rparr>)"
    if saved: "Save env io v s = (log, v', s', None)"
  proof -
    from Save_success [OF saved]
    have val: "Validate env v = (log, v', None)"
      and s': "s' = s\<lparr>Volumes := fst (UpsertId None d_id (Volume.Name v') (marshal v') (Volumes s))\<rparr>"
      by simp_all
    from val have name: "Volume.Name v' = Volume.Name v" by (rule Validate_name)
    have "find (\<lambda>d. d_id d = Volume.Name v) (Volumes s') = Some (marshal v')"
    proof (cases "Volume.Name v \<in> set (map d_id (Volumes s))")
      case True
      with s' name show ?thesis
        using find_after_replace [of "Volume.Name v" d_id "Volumes s" "marshal v'"]
        by (simp add: UpsertId_def marshal_id)
    next
      case False
      with s' name show ?thesis
        using find_after_append [of "Volume.Name v" d_id "Volumes s" "marshal v'"]
        by (simp add: UpsertId_def marshal_id)
    qed
    with assms show ?thesis
      by (simp add: Load_def FindId_One_def unmarshal_marshal)
  qed
  from missing loaded resolved show ?thesis by blast
qed

theorem Save_Load_roundtrip_witness:
  "Load no_faults ''v2''
     (example_db\<lparr>Volumes := [example_doc ''v1'', example_doc ''v3'', example_doc ''v2'']\<rparr>)
     = Inr ((example_volume ''v2'' ''plan1'')
          \<lparr>Plan := \<lparr>VolumePlan.Name = ''plan1'',
                    VolumePlan.Opts = fmap_of_list [(''size'', GString ''10Gi'')]\<rparr>,
           Volume.Opts := None\<rparr>) \<and>
   Load no_faults ''v2'' example_db = Inl ErrVolumeNotFound"
proof -
  let ?log = "[LookupPool ''p1'', LookupTeam ''team1'', LookupProvisioner,
         LookupConfig ''volume-plans:plan1:docker'']"
  let ?opts = "\<lparr>VolumePlan.Name = ''plan1'',
                    VolumePlan.Opts = fmap_of_list [(''size'', GString ''10Gi'')]\<rparr>"
  let ?v = "(example_volume ''v2'' ''plan1'')\<lparr>Volume.Opts := Some fmempty\<rparr>"
  let ?s' = "example_db\<lparr>Volumes := [example_doc ''v1'', example_doc ''v3'', example_doc ''v2'']\<rparr>"
  have io: "Conn_err no_faults = None" "Op_err no_faults = None"
    by (simp_all add: no_faults_def)
  have saved: "Save example_env no_faults ?v example_db = (?log, ?v\<lparr>Plan := ?opts\<rparr>, ?s', None)"
    by (simp add: Save_def Validate_def UpsertId_def marshal_def example_env_def
        example_volume_def example_db_def example_doc_def volumePlanKey_def no_faults_def Let_def)
  have fresh: "''v2'' \<notin> set (map d_id (Volumes example_db))"
    by (simp add: example_db_def example_doc_def)
  from Save_Load_roundtrip [OF io, of example_env no_faults ?v example_db ?log
      "?v\<lparr>Plan := ?opts\<rparr>" ?s' "''v2''" example_db] saved fresh
  show ?thesis by (simp add: example_volume_def)
qed

lemma unmarshal_name: "Volume.Name (unmarshal d) = d_id d"
  by (simp add: unmarshal_def)

text \<open>
  C3. On a reachable store \<open>ListByApp\<close> succeeds and returns the volumes of the
  volume collection whose name some bind record of the app refers to. Ids being
  unique in the collection, no volume is returned twice, at however many mount points
  the app has bound it; an app with no bind record gets the empty list; and a name
  that a bind record refers to but no stored volume has is absent from the result,
  which is a success all the same.
\<close>

theorem ListByApp_distinct_volumes:
  assumes "Conn_err io = None" and "Op_err io = None" and "Op2_err io = None"
      and "vs = map unmarshal
                  (filter (\<lambda>d. \<exists>b \<in> set (VolumeBinds s). App (ID b) = a \<and> Volume (ID b) = d_id d)
                     (Volumes s))"
  shows "ListByApp io a s = Inr vs \<and>
         set (map Volume.Name vs)
           = {n \<in> set (map d_id (Volumes s)).
                \<exists>b \<in> set (VolumeBinds s). App (ID b) = a \<and> Volume (ID b) = n} \<and>
         (wf_db s \<longrightarrow> distinct (map Volume.Name vs) \<and> distinct vs) \<and>
         ((\<forall>b \<in> set (VolumeBinds s). App (ID b) \<noteq> a) \<longrightarrow> vs = []) \<and>
         (\<forall>n. n \<notin> set (map d_id (Volumes s)) \<longrightarrow> n \<notin> set (map Volume.Name vs))"
proof -
  let ?bound = "\<lambda>d. \<exists>b \<in> set (VolumeBinds s). App (ID b) = a \<and> Volume (ID b) = d_id d"
  have sel: "(\<lambda>d. d_id d \<in> (\<lambda>b. Volume (ID b)) ` {b \<in> set (VolumeBinds s). App (ID b) = a})
               = ?bound"
    by (rule ext) force
  have result: "ListByApp io a s = Inr vs"
    using assms by (simp add: ListByApp_def Find_Distinct_def Find_All_def sel)
  have names: "map Volume.Name vs = map d_id (filter ?bound (Volumes s))"
    using assms(4) by (simp add: unmarshal_name)
  have set_names: "set (map Volume.Name vs)
           = {n \<in> set (map d_id (Volumes s)).
                \<exists>b \<in> set (VolumeBinds s). App (ID b) = a \<and> Volume (ID b) = n}"
    unfolding names by auto
  have dist_names: "distinct (map Volume.Name vs)" if "wf_db s"
    using that unfolding names wf_db_def by (simp add: distinct_map_filter)
  have dist: "distinct vs" if "wf_db s"
    using dist_names [OF that] by (simp add: distinct_map)
  have none: "vs = []" if "\<forall>b \<in> set (VolumeBinds s). App (ID b) \<noteq> a"
    using that assms(4) by (simp add: filter_empty_conv)
  have dropped: "\<forall>n. n \<notin> set (map d_id (Volumes s)) \<longrightarrow> n \<notin> set (map Volume.Name vs)"
    unfolding set_names by simp
  from result set_names dist_names dist none dropped show ?thesis by blast
qed

theorem ListByApp_distinct_volumes_witness:
  "ListByApp no_faults ''app1'' example_db = Inr [unmarshal (example_doc ''v1'')] \<and>
   ListByApp no_faults ''app3'' example_db = Inr []"
proof -
  have io: "Conn_err no_faults = None" "Op_err no_faults = None" "Op2_err no_faults = None"
    by (simp_all add: no_faults_def)
  have wf: "wf_db example_db"
    by (simp add: wf_db_def example_db_def example_doc_def example_bind_def)
  have vs1: "[unmarshal (example_doc ''v1'')] = map unmarshal
                  (filter (\<lambda>d. \<exists>b \<in> set (VolumeBinds example_db).
                                 App (ID b) = ''app1'' \<and> Volume (ID b) = d_id d)
                     (Volumes example_db))"
    by (simp add: example_db_def example_doc_def example_bind_def)
  have vs3: "[] = map unmarshal
                  (filter (\<lambda>d. \<exists>b \<in> set (VolumeBinds example_db).
                                 App (ID b) = ''app3'' \<and> Volume (ID b) = d_id d)
                     (Volumes example_db))"
    by (simp add: example_db_def example_doc_def example_bind_def)
  have none: "\<forall>b \<in> set (VolumeBinds example_db). App (ID b) \<noteq> ''app3''"
    by (simp add: example_db_def example_bind_def)
  from ListByApp_distinct_volumes [OF io vs1] wf ListByApp_distinct_volumes [OF io vs3] none
  show ?thesis by simp
qed

text \<open>
  The scenario of the spec: after the bind and its rejected repetition, \<open>Binds\<close> on
  the volume returns exactly one record.
\<close>

lemma Binds_after_BindApp_twice:
  "Binds no_faults (example_volume ''v1'' ''plan1'')
     (fst (BindApp example_Quote no_faults (example_volume ''v1'' ''plan1'') ''app1'' ''/data'' ''rw''
        (fst (BindApp example_Quote no_faults (example_volume ''v1'' ''plan1'') ''app1'' ''/data''
           ''rw'' empty_db))))
     = Inr [example_bind ''app1'' ''/data'' ''v1'' ''rw'']"
  by (simp add: Binds_def BindApp_def Insert_def Find_All_def Let_def no_faults_def empty_db_def
      example_volume_def example_bind_def BindModeReadOnly_def BindModeReadWrite_def)

end
